theory Spec2Isabelle
  imports Complex_Main "HOL-Library.Sublist"
begin

section \<open>Data model\<close>

text \<open>
  Coordinates are Python floats; they are modelled as reals, so rounding, infinities and
  NaN are outside the model. A ring is the coordinate sequence of a closed linear ring.
  A polygon is its exterior ring and its interior rings (the holes), in the order the
  geometry library stores them. Geometry objects are immutable values of the library.
\<close>

type_synonym point = "real \<times> real"

type_synonym ring = "point list"

record polygon =
  exterior :: ring
  interiors :: "ring list"

text \<open>
  The geometries a row of a collection carries: a Polygon, or a MultiPolygon with its
  parts. \<open>is_MultiPolygon\<close> is the test \<^verbatim>\<open>isinstance(g, MultiPolygon)\<close>.
\<close>

datatype geometry =
    is_Polygon: Polygon polygon
  | is_MultiPolygon: MultiPolygon (geoms: "polygon list")

text \<open>
  A geometry collection (GeoDataFrame or GeoSeries): the coordinate reference system,
  \<open>None\<close> when the collection has none, and the geometry of every row in row order.
\<close>

type_synonym crs_t = "string option"

record collection =
  crs :: crs_t
  rows :: "geometry list"

text \<open>
  The only failure of the code modelled here: a MultiPolygon has no attribute
  \<^verbatim>\<open>interiors\<close> (and no \<^verbatim>\<open>exterior\<close>), so reading it raises AttributeError.
\<close>

datatype error = AttributeError

section \<open>close\_holes\<close>

text \<open>
  \<^verbatim>\<open>Polygon(interior)\<close>: the polygon bounded by a ring, without holes. Rings taken from an
  existing polygon are closed already, so the constructor stores them as they are.
\<close>

definition ring_polygon :: "ring \<Rightarrow> polygon" where
  "ring_polygon interior = \<lparr>exterior = interior, interiors = []\<rparr>"

text \<open>
  The loop of \<^verbatim>\<open>close_holes\<close> over \<^verbatim>\<open>poly.interiors\<close>, with the list
  \<^verbatim>\<open>list_interiors\<close> it appends to as accumulator. The library's \<^verbatim>\<open>area\<close> property is
  the parameter \<open>area\<close>.
\<close>

fun collect_interiors :: "(polygon \<Rightarrow> real) \<Rightarrow> real \<Rightarrow> ring list \<Rightarrow> ring list \<Rightarrow> ring list" where
  "collect_interiors area area_max [] list_interiors = list_interiors"
| "collect_interiors area area_max (interior # rest) list_interiors =
     (let p = ring_polygon interior in
      if area p > area_max
      then collect_interiors area area_max rest (list_interiors @ [interior])
      else collect_interiors area area_max rest list_interiors)"

fun close_holes :: "(polygon \<Rightarrow> real) \<Rightarrow> geometry \<Rightarrow> real \<Rightarrow> error + geometry" where
  "close_holes area (Polygon poly) area_max =
     (if area_max = 0 then
        (if interiors poly \<noteq> []
         then Inr (Polygon \<lparr>exterior = exterior poly, interiors = []\<rparr>)
         else Inr (Polygon poly))
      else
        Inr (Polygon \<lparr>exterior = exterior poly,
                      interiors = collect_interiors area area_max (interiors poly) []\<rparr>))"
| "close_holes area (MultiPolygon ps) area_max = Inl AttributeError"

section \<open>buffer\<close>

text \<open>
  The library's join styles with their integer codes (\<^verbatim>\<open>JOIN_STYLE\<close>: round is 1, mitre
  is 2, bevel is 3); the source passes the code.
\<close>

datatype join_style = Round | Mitre | Bevel

fun join_code :: "join_style \<Rightarrow> int" where
  "join_code Round = 1"
| "join_code Mitre = 2"
| "join_code Bevel = 3"

text \<open>
  The library's \<^verbatim>\<open>geometry.buffer(distance, join_style=code)\<close> is the parameter
  \<open>shp_buffer\<close>: a positive distance grows the geometry, a negative one shrinks it, and
  the result can be a Polygon or a MultiPolygon.
\<close>

type_synonym buffer_op = "geometry \<Rightarrow> real \<Rightarrow> int \<Rightarrow> geometry"

definition buffer :: "buffer_op \<Rightarrow> geometry \<Rightarrow> geometry" where
  "buffer shp_buffer poly =
     (let dist = 1 / 100000 in
      shp_buffer (shp_buffer poly dist 2) (- dist) 2)"

section \<open>fill\_geopandas\<close>

text \<open>
  \<^verbatim>\<open>series.apply(f)\<close> calls \<open>f\<close> on every row in row order and collects the results; the
  first call that raises ends it.
\<close>

fun apply_rows :: "('a \<Rightarrow> error + 'b) \<Rightarrow> 'a list \<Rightarrow> error + 'b list" where
  "apply_rows f [] = Inr []"
| "apply_rows f (p # ps) =
     (case f p of
        Inl e \<Rightarrow> Inl e
      | Inr q \<Rightarrow> (case apply_rows f ps of Inl e \<Rightarrow> Inl e | Inr qs \<Rightarrow> Inr (q # qs)))"

text \<open>The series that \<^verbatim>\<open>apply\<close> returns keeps the CRS of the geometry column.\<close>

definition fill_geopandas :: "(polygon \<Rightarrow> real) \<Rightarrow> collection \<Rightarrow> real \<Rightarrow> error + collection" where
  "fill_geopandas area df area_max =
     (case apply_rows (\<lambda>p. close_holes area p area_max) (rows df) of
        Inl e \<Rightarrow> Inl e
      | Inr filled \<Rightarrow> Inr \<lparr>crs = crs df, rows = filled\<rparr>)"

section \<open>dissolve\_geopandas\<close>

text \<open>
  The library's \<^verbatim>\<open>total_bounds\<close> property is the parameter \<open>total_bounds\<close>, giving
  (left, bottom, right, top); the last two are written \<open>top'\<close> and \<open>bottom'\<close> below.
  The first part of \<^verbatim>\<open>dissolve_geopandas\<close> builds the
  rectangle \<^verbatim>\<open>rect\<close>, a collection of one row with the CRS of \<^verbatim>\<open>df\<close>.
\<close>

type_synonym bounds_op = "collection \<Rightarrow> real \<times> real \<times> real \<times> real"

definition bounding_rect :: "bounds_op \<Rightarrow> collection \<Rightarrow> collection" where
  "bounding_rect total_bounds df =
     (case total_bounds df of (left, bottom', right, top') \<Rightarrow>
        (let left = left - 1;
             right = right + 1;
             top' = top' + 1;
             bottom' = bottom' - 1;
             lat_point_list = [left, right, right, left, left];
             lon_point_list = [top', top', bottom', bottom', top'];
             polygon_geom = Polygon (ring_polygon (zip lat_point_list lon_point_list))
         in \<lparr>crs = crs df, rows = [polygon_geom]\<rparr>))"

text \<open>
  The library's \<^verbatim>\<open>gpd.clip(gdf, mask)\<close> keeps the rows of \<open>gdf\<close> that meet the mask, in
  the order of \<open>gdf\<close>, each cut to the mask, and keeps the CRS of \<open>gdf\<close>. The geometry of
  it is the parameter \<open>clip_row\<close>: the row cut to the mask, or \<open>None\<close> when the row does
  not meet the mask and is left out.
\<close>

type_synonym clip_op = "geometry \<Rightarrow> collection \<Rightarrow> geometry option"

definition gpd_clip :: "clip_op \<Rightarrow> collection \<Rightarrow> collection \<Rightarrow> collection" where
  "gpd_clip clip_row gdf mask_df =
     \<lparr>crs = crs gdf, rows = List.map_filter (\<lambda>g. clip_row g mask_df) (rows gdf)\<rparr>"

text \<open>
  Lines 92 to 107: the rows of \<^verbatim>\<open>clipped\<close> after \<^verbatim>\<open>buffer\<close> has been applied to each.
  The index of \<^verbatim>\<open>rect\<close> is \<^verbatim>\<open>[0]\<close>, so the labels of the rows of \<^verbatim>\<open>clipped\<close> are their
  positions, and a series is modelled by the list of its rows.
\<close>

definition buffered_clip :: "bounds_op \<Rightarrow> clip_op \<Rightarrow> buffer_op \<Rightarrow> collection \<Rightarrow> geometry list" where
  "buffered_clip total_bounds clip_row shp_buffer df =
     (let rect = bounding_rect total_bounds df;
          clipped = gpd_clip clip_row rect df
      in map (\<lambda>p. buffer shp_buffer p) (rows clipped))"

text \<open>
  \<^verbatim>\<open>GeoDataFrame(geometry=GeoSeries(g)).explode()\<close>, geometry column: one row for each
  part of a MultiPolygon, in the order of the parts; a Polygon is its only part.
\<close>

fun explode :: "geometry \<Rightarrow> geometry list" where
  "explode (MultiPolygon ps) = map Polygon ps"
| "explode (Polygon p) = [Polygon p]"

text \<open>
  The value assigned to \<^verbatim>\<open>clipped_\<close> in the branch of the loop: the rows of
  \<^verbatim>\<open>clipped\<close> from label \<open>i + 1\<close> on, followed by the exploded rows.
\<close>

definition splice_rows :: "geometry list \<Rightarrow> nat \<Rightarrow> geometry list" where
  "splice_rows clipped i =
     (let clipped_explode = explode (clipped ! i)
      in drop (i + 1) clipped @ clipped_explode)"

text \<open>
  The loop \<^verbatim>\<open>for i in clipped.index\<close> over the labels still to visit, with the current
  binding of \<^verbatim>\<open>clipped_\<close>, written \<open>clipped'\<close>.
\<close>

fun explode_loop :: "geometry list \<Rightarrow> nat list \<Rightarrow> geometry list \<Rightarrow> geometry list" where
  "explode_loop clipped [] clipped' = clipped'"
| "explode_loop clipped (i # index) clipped' =
     (if is_MultiPolygon (clipped ! i)
      then explode_loop clipped index (splice_rows clipped i)
      else explode_loop clipped index clipped')"

text \<open>
  \<^verbatim>\<open>dissolve_geopandas\<close> returns the rows of the final \<^verbatim>\<open>clipped_\<close>. The CRS of the
  series built by \<^verbatim>\<open>pd.concat\<close> is the library's choice and is not part of the result
  modelled here.
\<close>

definition dissolve_geopandas :: "bounds_op \<Rightarrow> clip_op \<Rightarrow> buffer_op \<Rightarrow> collection \<Rightarrow> geometry list" where
  "dissolve_geopandas total_bounds clip_row shp_buffer df =
     (let clipped = buffered_clip total_bounds clip_row shp_buffer df;
          clipped' = clipped
      in explode_loop clipped [0..<length clipped] clipped')"

section \<open>Objects: which values are new\<close>

text \<open>
  The functions above compute values. To say which object a call returns, and that the
  objects it was given keep their content, the geometry objects and the collection
  objects of the program are kept in a store; an object is named by its position there.
  Constructing an object appends it to the store, and no statement of the four functions
  assigns to an object that exists: the source only rebinds local names. A collection
  object holds the geometries of its rows by value. Objects that nothing refers to after
  the call (\<^verbatim>\<open>Polygon(interior)\<close> in \<^verbatim>\<open>close_holes\<close>, the coordinate lists) are not
  kept.
\<close>

record store =
  geom_objs :: "geometry list"
  coll_objs :: "collection list"

definition new_geom :: "store \<Rightarrow> geometry \<Rightarrow> store \<times> nat" where
  "new_geom s g = (s\<lparr>geom_objs := geom_objs s @ [g]\<rparr>, length (geom_objs s))"

definition new_coll :: "store \<Rightarrow> collection \<Rightarrow> store \<times> nat" where
  "new_coll s c = (s\<lparr>coll_objs := coll_objs s @ [c]\<rparr>, length (coll_objs s))"

text \<open>
  \<^verbatim>\<open>buffer\<close>: each of the two library calls constructs a geometry.
\<close>

definition buffer_obj :: "buffer_op \<Rightarrow> store \<Rightarrow> nat \<Rightarrow> store \<times> nat" where
  "buffer_obj shp_buffer s poly =
     (let dist = 1 / 100000;
          (s1, grown) = new_geom s (shp_buffer (geom_objs s ! poly) dist 2)
      in new_geom s1 (shp_buffer (geom_objs s1 ! grown) (- dist) 2))"

text \<open>
  \<^verbatim>\<open>close_holes\<close>: the two calls of the \<^verbatim>\<open>Polygon\<close> constructor make an object;
  \<^verbatim>\<open>return poly\<close> returns the argument itself.
\<close>

definition close_holes_obj :: "(polygon \<Rightarrow> real) \<Rightarrow> store \<Rightarrow> nat \<Rightarrow> real \<Rightarrow> error + store \<times> nat" where
  "close_holes_obj area s poly area_max =
     (case geom_objs s ! poly of
        MultiPolygon ps \<Rightarrow> Inl AttributeError
      | Polygon p \<Rightarrow>
          (if area_max = 0 then
             (if interiors p \<noteq> []
              then Inr (new_geom s (Polygon \<lparr>exterior = exterior p, interiors = []\<rparr>))
              else Inr (s, poly))
           else
             Inr (new_geom s (Polygon \<lparr>exterior = exterior p,
                    interiors = collect_interiors area area_max (interiors p) []\<rparr>))))"

text \<open>
  \<^verbatim>\<open>fill_geopandas\<close>: \<^verbatim>\<open>apply\<close> constructs the series it returns.
\<close>

definition fill_geopandas_obj :: "(polygon \<Rightarrow> real) \<Rightarrow> store \<Rightarrow> nat \<Rightarrow> real \<Rightarrow> error + store \<times> nat" where
  "fill_geopandas_obj area s df area_max =
     (case apply_rows (\<lambda>p. close_holes area p area_max) (rows (coll_objs s ! df)) of
        Inl e \<Rightarrow> Inl e
      | Inr filled \<Rightarrow> Inr (new_coll s \<lparr>crs = crs (coll_objs s ! df), rows = filled\<rparr>))"

text \<open>
  \<^verbatim>\<open>dissolve_geopandas\<close>: \<^verbatim>\<open>rect\<close>, the two values of \<^verbatim>\<open>clipped\<close>, the copy
  \<^verbatim>\<open>clipped_\<close> and, in the branch of the loop, \<^verbatim>\<open>clipped_explode\<close> and the series made from
  \<^verbatim>\<open>pd.concat\<close> are collection objects constructed by the call. The CRS that
  \<^verbatim>\<open>pd.concat\<close> gives to its result is the parameter \<open>concat_crs\<close>.
\<close>

fun explode_loop_obj :: "(crs_t \<Rightarrow> crs_t \<Rightarrow> crs_t) \<Rightarrow> store \<Rightarrow> nat \<Rightarrow> nat list \<Rightarrow> nat \<Rightarrow> store \<times> nat" where
  "explode_loop_obj concat_crs s clipped [] clipped' = (s, clipped')"
| "explode_loop_obj concat_crs s clipped (i # index) clipped' =
     (if is_MultiPolygon (rows (coll_objs s ! clipped) ! i) then
        (let (s1, clipped_explode) =
               new_coll s \<lparr>crs = None, rows = explode (rows (coll_objs s ! clipped) ! i)\<rparr>;
             (s2, spliced) =
               new_coll s1 \<lparr>crs = concat_crs (crs (coll_objs s1 ! clipped)) (crs (coll_objs s1 ! clipped_explode)),
                            rows = drop (i + 1) (rows (coll_objs s1 ! clipped))
                                   @ rows (coll_objs s1 ! clipped_explode)\<rparr>
         in explode_loop_obj concat_crs s2 clipped index spliced)
      else explode_loop_obj concat_crs s clipped index clipped')"

definition dissolve_geopandas_obj ::
  "bounds_op \<Rightarrow> clip_op \<Rightarrow> buffer_op \<Rightarrow> (crs_t \<Rightarrow> crs_t \<Rightarrow> crs_t) \<Rightarrow> store \<Rightarrow> nat \<Rightarrow> store \<times> nat" where
  "dissolve_geopandas_obj total_bounds clip_row shp_buffer concat_crs s df =
     (let (s1, rect) = new_coll s (bounding_rect total_bounds (coll_objs s ! df));
          (s2, clipped) = new_coll s1 (gpd_clip clip_row (coll_objs s1 ! rect) (coll_objs s1 ! df));
          (s3, clipped) = new_coll s2 \<lparr>crs = crs (coll_objs s2 ! clipped),
                                       rows = map (\<lambda>p. buffer shp_buffer p) (rows (coll_objs s2 ! clipped))\<rparr>;
          (s4, clipped') = new_coll s3 (coll_objs s3 ! clipped)
      in explode_loop_obj concat_crs s4 clipped [0..<length (rows (coll_objs s4 ! clipped))] clipped')"

text \<open>
  Every object of \<open>s\<close> is an object of \<open>s'\<close>, at its position and with its content.
\<close>

definition unchanged :: "store \<Rightarrow> store \<Rightarrow> bool" where
  "unchanged s s' \<longleftrightarrow> prefix (geom_objs s) (geom_objs s') \<and> prefix (coll_objs s) (coll_objs s')"

section \<open>Examples\<close>

text \<open>
  The examples below need some area function. \<open>planar_area\<close> is the shoelace formula:
  the absolute area enclosed by the exterior ring minus the absolute areas of the holes.
\<close>

fun shoelace :: "ring \<Rightarrow> real" where
  "shoelace ((x1, y1) # (x2, y2) # ps) = (x1 * y2 - x2 * y1) + shoelace ((x2, y2) # ps)"
| "shoelace ps = 0"

definition planar_area :: "polygon \<Rightarrow> real" where
  "planar_area p =
     \<bar>shoelace (exterior p)\<bar> / 2 - sum_list (map (\<lambda>h. \<bar>shoelace h\<bar> / 2) (interiors p))"

definition box :: "real \<Rightarrow> real \<Rightarrow> real \<Rightarrow> real \<Rightarrow> ring" where
  "box x0 y0 x1 y1 = [(x0, y0), (x1, y0), (x1, y1), (x0, y1), (x0, y0)]"

text \<open>A square of side 10 with three rectangular holes, of areas 1, 4 and 2.\<close>

definition donut :: polygon where
  "donut = \<lparr>exterior = box 0 0 10 10, interiors = [box 1 1 2 2, box 4 4 6 6, box 7 7 8 9]\<rparr>"

text \<open>
  Stand-ins for the library's operations, for evaluating the model on examples. The
  bounds are the extremes of the exterior coordinates. \<open>disjoint_clip\<close> cuts a row that
  contains a mask of pairwise disjoint polygons: what is left of the row is the polygons
  of the mask, a MultiPolygon when there are several. \<open>keep_shape\<close> is a buffer that
  leaves a geometry as it is.
\<close>

fun geometry_parts :: "geometry \<Rightarrow> polygon list" where
  "geometry_parts (Polygon p) = [p]"
| "geometry_parts (MultiPolygon ps) = ps"

definition coordinate_bounds :: bounds_op where
  "coordinate_bounds df =
     (let pts = concat (map exterior (concat (map geometry_parts (rows df))));
          xs = map fst pts; ys = map snd pts
      in (fold min xs (hd xs), fold min ys (hd ys), fold max xs (hd xs), fold max ys (hd ys)))"

definition disjoint_clip :: clip_op where
  "disjoint_clip g mask_df =
     (case concat (map geometry_parts (rows mask_df)) of
        [] \<Rightarrow> None
      | [p] \<Rightarrow> Some (Polygon p)
      | ps \<Rightarrow> Some (MultiPolygon ps))"

definition keep_shape :: buffer_op where
  "keep_shape g distance code = g"

definition two_squares :: collection where
  "two_squares = \<lparr>crs = Some ''EPSG:4326'',
                  rows = [Polygon (ring_polygon (box 0 0 1 1)), Polygon (ring_polygon (box 3 0 4 2))]\<rparr>"

definition one_square :: collection where
  "one_square = \<lparr>crs = Some ''EPSG:4326'', rows = [Polygon (ring_polygon (box 0 0 1 1))]\<rparr>"

definition multi_df :: collection where
  "multi_df = \<lparr>crs = Some ''EPSG:4326'',
               rows = [Polygon donut, MultiPolygon [ring_polygon (box 0 0 1 1), ring_polygon (box 3 0 4 2)]]\<rparr>"

definition donut_df :: collection where
  "donut_df = \<lparr>crs = Some ''EPSG:4326'', rows = [Polygon donut, Polygon (ring_polygon (box 0 0 1 1))]\<rparr>"

text \<open>
  A series of three rows with a MultiPolygon in the middle. Two squares that touch at a
  corner. A U and a bar that closes it, whose union is a rectangle with a hole;
  \<open>u_bar_clip\<close> is the clip of a row that contains them: that union.
\<close>

definition three_rows :: "geometry list" where
  "three_rows = [Polygon (ring_polygon (box 0 0 1 1)),
                 MultiPolygon [ring_polygon (box 3 0 4 2), ring_polygon (box 5 0 6 1)],
                 Polygon (ring_polygon (box 7 0 8 1))]"






text \<open>
  A stand-in for the CRS of a concatenation, and a store with two geometry objects and
  one collection object.
\<close>

definition common_crs :: "crs_t \<Rightarrow> crs_t \<Rightarrow> crs_t" where
  "common_crs a b = (case a of None \<Rightarrow> b | Some c \<Rightarrow> Some c)"

definition store0 :: store where
  "store0 = \<lparr>geom_objs = [Polygon donut, Polygon (ring_polygon (box 0 0 1 1))],
             coll_objs = [two_squares]\<rparr>"

section \<open>Properties of close\_holes\<close>

lemma collect_interiors_filter:
  "collect_interiors area area_max rs acc =
     acc @ filter (\<lambda>r. area_max < area (ring_polygon r)) rs"
  by (induction rs arbitrary: acc) (simp_all add: Let_def)

lemma shoelace_box: "shoelace (box x0 y0 x1 y1) = 2 * ((x1 - x0) * (y1 - y0))"
  by (simp add: box_def algebra_simps)

lemma planar_area_box:
  "planar_area (ring_polygon (box x0 y0 x1 y1)) = \<bar>(x1 - x0) * (y1 - y0)\<bar>"
  by (simp add: planar_area_def ring_polygon_def shoelace_box)

lemma donut_areas:
  "planar_area (ring_polygon (box 1 1 2 2)) = 1"
  "planar_area (ring_polygon (box 4 4 6 6)) = 4"
  "planar_area (ring_polygon (box 7 7 8 9)) = 2"
  by (simp_all add: planar_area_box)

text \<open>
  Claim C3. For a polygon and a nonzero \<open>area_max\<close>, \<open>close_holes\<close> returns the polygon
  with the input's exterior ring and exactly the interior rings, in their order, whose
  polygon has an area strictly greater than \<open>area_max\<close>. So a ring of area exactly
  \<open>area_max\<close> is not among the rings kept, and a ring of area \<open>area_max + \<epsilon>\<close>, for a
  positive \<open>\<epsilon>\<close>, is.
\<close>

theorem close_holes_threshold:
  assumes "area_max \<noteq> 0"
  shows "close_holes area (Polygon poly) area_max =
           Inr (Polygon \<lparr>exterior = exterior poly,
                          interiors = filter (\<lambda>r. area_max < area (ring_polygon r)) (interiors poly)\<rparr>)
         \<and> (\<forall>r \<in> set (interiors poly). area (ring_polygon r) = area_max \<longrightarrow>
               r \<notin> set (filter (\<lambda>r. area_max < area (ring_polygon r)) (interiors poly)))
         \<and> (\<forall>r \<in> set (interiors poly). \<forall>\<epsilon> > 0. area (ring_polygon r) = area_max + \<epsilon> \<longrightarrow>
               r \<in> set (filter (\<lambda>r. area_max < area (ring_polygon r)) (interiors poly)))"
  using assms by (simp add: collect_interiors_filter)

text \<open>
  With \<open>area_max = 1\<close> the hole of area 1 of \<open>donut\<close> is filled and the holes of areas 4
  and 2 stay.
\<close>

theorem close_holes_threshold_witness:
  "(1::real) \<noteq> 0 \<and>
   close_holes planar_area (Polygon donut) 1 =
     Inr (Polygon \<lparr>exterior = box 0 0 10 10, interiors = [box 4 4 6 6, box 7 7 8 9]\<rparr>)"
  using close_holes_threshold [of 1 planar_area donut]
  by (simp add: donut_def donut_areas)

text \<open>
  Claim C4. \<open>close_holes\<close> with \<open>area_max = 0\<close> returns a polygon without interior
  rings whose exterior ring is the input's; a polygon that has no interior rings is
  returned as it is.
\<close>

theorem close_holes_zero:
  "close_holes area (Polygon poly) 0 = Inr (Polygon \<lparr>exterior = exterior poly, interiors = []\<rparr>)
   \<and> (interiors poly = [] \<longrightarrow> close_holes area (Polygon poly) 0 = Inr (Polygon poly))"
  by simp

theorem close_holes_zero_witness:
  "close_holes planar_area (Polygon donut) 0 =
     Inr (Polygon \<lparr>exterior = box 0 0 10 10, interiors = []\<rparr>)
   \<and> interiors (ring_polygon (box 0 0 10 10)) = []
   \<and> close_holes planar_area (Polygon (ring_polygon (box 0 0 10 10))) 0 =
       Inr (Polygon (ring_polygon (box 0 0 10 10)))"
  using close_holes_zero [of planar_area donut]
    close_holes_zero [of planar_area "ring_polygon (box 0 0 10 10)"]
  by (simp add: donut_def ring_polygon_def)

text \<open>
  Claim C9. For every polygon and every \<open>area_max\<close>, negative ones too, \<open>close_holes\<close>
  returns a polygon whose exterior ring is the input's and whose interior rings are a
  subsequence, in order, of the input's. For a negative \<open>area_max\<close> every interior ring
  is kept; this rests on the library's areas not being negative.
\<close>

theorem close_holes_subseq:
  "\<exists>q. close_holes area (Polygon poly) area_max = Inr (Polygon q)
       \<and> exterior q = exterior poly
       \<and> subseq (interiors q) (interiors poly)
       \<and> ((\<forall>r \<in> set (interiors poly). 0 \<le> area (ring_polygon r)) \<and> area_max < 0
            \<longrightarrow> interiors q = interiors poly)"
proof (cases "area_max = 0")
  case True
  then show ?thesis by simp
next
  case False
  let ?keep = "filter (\<lambda>r. area_max < area (ring_polygon r)) (interiors poly)"
  have sub: "subseq ?keep (interiors poly)" by simp
  have all: "?keep = interiors poly"
    if "\<forall>r \<in> set (interiors poly). 0 \<le> area (ring_polygon r)" "area_max < 0"
  proof -
    have "\<forall>r \<in> set (interiors poly). area_max < area (ring_polygon r)"
      using that by fastforce
    then show ?thesis by simp
  qed
  from False sub all show ?thesis
    by (simp add: collect_interiors_filter)
qed

theorem close_holes_subseq_witness:
  "(\<exists>q. close_holes planar_area (Polygon donut) (-1) = Inr (Polygon q)
       \<and> exterior q = exterior donut \<and> subseq (interiors q) (interiors donut)
       \<and> interiors q = interiors donut)
   \<and> list_all (\<lambda>r. 0 \<le> planar_area (ring_polygon r)) (interiors donut) \<and> (-1::real) < 0"
  using close_holes_subseq [of planar_area donut "-1"]
  by (simp add: donut_def donut_areas)

section \<open>Properties of buffer\<close>

text \<open>
  Claim C7. \<open>buffer\<close> returns the geometry grown by the distance 0.00001 with the mitre
  join style and then shrunk by the same distance with the same join style. The distance
  is a constant of the function.
\<close>

theorem buffer_grow_shrink:
  "\<exists>dist. dist = 1 / 100000 \<and> 0 < dist
     \<and> buffer shp_buffer poly =
         shp_buffer (shp_buffer poly dist (join_code Mitre)) (- dist) (join_code Mitre)"
proof (intro exI conjI)
  show "(1 / 100000 :: real) = 1 / 100000" ..
  show "(0 :: real) < 1 / 100000" by simp
  show "buffer shp_buffer poly =
          shp_buffer (shp_buffer poly (1 / 100000) (join_code Mitre)) (- (1 / 100000))
            (join_code Mitre)"
    by (simp add: buffer_def Let_def)
qed

section \<open>Properties of fill\_geopandas\<close>

lemma map_Inr_eq: "(map Inr xs = map Inr ys) = (xs = ys)"
  by (simp add: inj_map_eq_map)

lemma apply_rows_Inr:
  "(apply_rows f ps = Inr qs) \<longleftrightarrow> (map f ps = map Inr qs)"
proof (induction ps arbitrary: qs)
  case Nil
  then show ?case by auto
next
  case (Cons p ps)
  show ?case
  proof (cases "f p")
    case (Inl e)
    then show ?thesis by (cases qs) simp_all
  next
    case fp: (Inr q)
    show ?thesis
    proof (cases "apply_rows f ps")
      case (Inl e)
      with Cons.IH have "\<And>qs. map f ps \<noteq> map Inr qs" by simp
      with Inl fp show ?thesis by (cases qs) simp_all
    next
      case (Inr qs')
      have m: "map f ps = map Inr qs'"
        using Cons.IH [of qs'] Inr by simp
      show ?thesis
      proof (cases qs)
        case Nil
        with Inr fp show ?thesis by simp
      next
        case c: (Cons a list)
        show ?thesis
          unfolding c by (simp add: fp Inr m map_Inr_eq)
      qed
    qed
  qed
qed

lemma apply_rows_total:
  "\<forall>p \<in> set ps. \<exists>q. f p = Inr q \<Longrightarrow> \<exists>qs. apply_rows f ps = Inr qs"
  by (induction ps) (auto split: sum.splits)

lemma error_only: "(e :: error) = AttributeError"
  by (cases e) simp

lemma apply_rows_error:
  "p \<in> set ps \<Longrightarrow> f p = Inl AttributeError \<Longrightarrow> apply_rows f ps = Inl AttributeError"
proof (induction ps)
  case Nil
  then show ?case by simp
next
  case (Cons a ps)
  show ?case
  proof (cases "f a")
    case (Inl e)
    then show ?thesis using error_only [of e] by simp
  next
    case (Inr q)
    with Cons.prems have "p \<in> set ps" by auto
    with Cons have "apply_rows f ps = Inl AttributeError" by simp
    with Inr show ?thesis by simp
  qed
qed


lemma close_holes_total: "is_Polygon g \<Longrightarrow> \<exists>q. close_holes area g area_max = Inr q"
  by (cases g) simp_all

text \<open>
  Claim C6, as stated, fails on a collection with a MultiPolygon row: \<open>close_holes\<close>
  raises there and no collection is returned.
\<close>

theorem fill_geopandas_multipolygon_raises:
  "fill_geopandas planar_area multi_df 1 = Inl AttributeError"
  by (simp add: fill_geopandas_def multi_df_def donut_def donut_areas collect_interiors_filter)

text \<open>
  Claim C6, amended. For a collection whose rows are all Polygons, \<open>fill_geopandas\<close>
  returns a collection with the CRS of the input and as many rows, whose row \<open>i\<close> is
  \<open>close_holes\<close> of row \<open>i\<close> of the input. When some row is a MultiPolygon the call
  raises AttributeError.
\<close>

theorem fill_geopandas_rows:
  "((\<forall>g \<in> set (rows df). is_Polygon g) \<longrightarrow>
      (\<exists>filled. fill_geopandas area df area_max = Inr filled
         \<and> crs filled = crs df
         \<and> length (rows filled) = length (rows df)
         \<and> (\<forall>i < length (rows df). close_holes area (rows df ! i) area_max = Inr (rows filled ! i))))
   \<and> ((\<exists>g \<in> set (rows df). is_MultiPolygon g) \<longrightarrow>
        fill_geopandas area df area_max = Inl AttributeError)"
proof (intro conjI impI)
  assume "\<forall>g \<in> set (rows df). is_Polygon g"
  then have "\<forall>g \<in> set (rows df). \<exists>q. close_holes area g area_max = Inr q"
    by (simp add: close_holes_total)
  then have "\<exists>qs. apply_rows (\<lambda>p. close_holes area p area_max) (rows df) = Inr qs"
    by (rule apply_rows_total)
  then obtain qs where qs: "apply_rows (\<lambda>p. close_holes area p area_max) (rows df) = Inr qs" ..
  then have m: "map (\<lambda>p. close_holes area p area_max) (rows df) = map Inr qs"
    by (simp add: apply_rows_Inr)
  have len: "length qs = length (rows df)"
    using arg_cong [OF m, of length] by simp
  have "close_holes area (rows df ! i) area_max = Inr (qs ! i)" if "i < length (rows df)" for i
    using arg_cong [OF m, of "\<lambda>l. l ! i"] that len by simp
  with qs len show "\<exists>filled. fill_geopandas area df area_max = Inr filled
         \<and> crs filled = crs df
         \<and> length (rows filled) = length (rows df)
         \<and> (\<forall>i < length (rows df). close_holes area (rows df ! i) area_max = Inr (rows filled ! i))"
    by (simp add: fill_geopandas_def)
next
  assume "\<exists>g \<in> set (rows df). is_MultiPolygon g"
  then obtain g where g: "g \<in> set (rows df)" "is_MultiPolygon g" by blast
  have "close_holes area g area_max = Inl AttributeError"
    using g(2) by (cases g) simp_all
  with g(1) have "apply_rows (\<lambda>p. close_holes area p area_max) (rows df) = Inl AttributeError"
    by (rule apply_rows_error)
  then show "fill_geopandas area df area_max = Inl AttributeError"
    by (simp add: fill_geopandas_def)
qed


lemma fill_geopandas_donut_df:
  "fill_geopandas planar_area donut_df 1 =
     Inr \<lparr>crs = Some ''EPSG:4326'',
          rows = [Polygon \<lparr>exterior = box 0 0 10 10, interiors = [box 4 4 6 6, box 7 7 8 9]\<rparr>,
                  Polygon (ring_polygon (box 0 0 1 1))]\<rparr>"
  by (simp add: fill_geopandas_def donut_df_def donut_def donut_areas collect_interiors_filter)
     (simp add: ring_polygon_def)

theorem fill_geopandas_rows_witness:
  "list_all is_Polygon (rows donut_df)
   \<and> fill_geopandas planar_area donut_df 1 =
       Inr \<lparr>crs = Some ''EPSG:4326'',
            rows = [Polygon \<lparr>exterior = box 0 0 10 10, interiors = [box 4 4 6 6, box 7 7 8 9]\<rparr>,
                    Polygon (ring_polygon (box 0 0 1 1))]\<rparr>
   \<and> list_ex is_MultiPolygon (rows multi_df)
   \<and> fill_geopandas planar_area multi_df 1 = Inl AttributeError"
  using fill_geopandas_rows [of donut_df planar_area 1] fill_geopandas_rows [of multi_df planar_area 1]
  by (simp add: fill_geopandas_donut_df) (simp add: multi_df_def donut_df_def)


section \<open>Properties of dissolve\_geopandas\<close>

lemma coordinate_bounds_two_squares: "coordinate_bounds two_squares = (0, 0, 4, 2)"
  by (simp add: coordinate_bounds_def two_squares_def ring_polygon_def box_def)

text \<open>
  Claim C5. When the total bounds of the input are (left, bottom, right, top), the
  clipping rectangle is the collection of one row, with the CRS of the input, whose
  polygon has the corners (left - 1, top + 1), (right + 1, top + 1),
  (right + 1, bottom - 1), (left - 1, bottom - 1), closed by the first corner, and no
  interior ring.
\<close>

theorem bounding_rect_corners:
  assumes "total_bounds df = (left, bottom', right, top')"
  shows "bounding_rect total_bounds df =
           \<lparr>crs = crs df,
            rows = [Polygon \<lparr>exterior = [(left - 1, top' + 1), (right + 1, top' + 1),
                                         (right + 1, bottom' - 1), (left - 1, bottom' - 1),
                                         (left - 1, top' + 1)],
                             interiors = []\<rparr>]\<rparr>
         \<and> length (rows (bounding_rect total_bounds df)) = 1
         \<and> crs (bounding_rect total_bounds df) = crs df"
  using assms by (simp add: bounding_rect_def ring_polygon_def Let_def)

theorem bounding_rect_corners_witness:
  "coordinate_bounds two_squares = (0, 0, 4, 2) \<and>
   bounding_rect coordinate_bounds two_squares =
     \<lparr>crs = Some ''EPSG:4326'',
      rows = [Polygon \<lparr>exterior = [(-1, 3), (5, 3), (5, -1), (-1, -1), (-1, 3)], interiors = []\<rparr>]\<rparr>"
  using bounding_rect_corners [of coordinate_bounds two_squares 0 0 4 2]
  by (simp add: coordinate_bounds_two_squares) (simp add: two_squares_def)

text \<open>
  The loop keeps the last assignment only: when some visited row is a MultiPolygon, the
  result is the splice at the last such row, whatever \<open>clipped'\<close> was before.
\<close>

lemma explode_loop_last:
  "explode_loop clipped index acc =
     (if filter (\<lambda>i. is_MultiPolygon (clipped ! i)) index = [] then acc
      else splice_rows clipped (last (filter (\<lambda>i. is_MultiPolygon (clipped ! i)) index)))"
  by (induction index arbitrary: acc) simp_all

lemma filter_upt_last:
  assumes "i < n" and "P i" and "\<forall>j. i < j \<and> j < n \<longrightarrow> \<not> P j"
  shows "filter P [0..<n] = filter P [0..<i] @ [i]"
proof -
  have "[0..<i + (n - i)] = [0..<i] @ [i..<i + (n - i)]"
    by (rule upt_add_eq_append) simp
  with assms(1) have "[0..<n] = [0..<i] @ [i..<n]" by simp
  with assms(1) have split: "[0..<n] = [0..<i] @ i # [Suc i..<n]"
    by (simp add: upt_conv_Cons)
  have "filter P [Suc i..<n] = []"
    using assms(3) by (simp add: filter_empty_conv)
  with assms(2) show ?thesis
    by (simp add: split)
qed

lemma explode_loop_last_row:
  assumes "i < length clipped" and "is_MultiPolygon (clipped ! i)"
    and "\<forall>j. i < j \<and> j < length clipped \<longrightarrow> \<not> is_MultiPolygon (clipped ! j)"
  shows "explode_loop clipped [0..<length clipped] acc = splice_rows clipped i"
proof -
  have "filter (\<lambda>i. is_MultiPolygon (clipped ! i)) [0..<length clipped] =
          filter (\<lambda>i. is_MultiPolygon (clipped ! i)) [0..<i] @ [i]"
    using assms by (rule filter_upt_last)
  then show ?thesis
    by (simp add: explode_loop_last)
qed

lemma splice_rows_multi:
  "is_MultiPolygon (clipped ! i) \<Longrightarrow>
     splice_rows clipped i = drop (i + 1) clipped @ map Polygon (geoms (clipped ! i))"
  by (cases "clipped ! i") (simp_all add: splice_rows_def)

text \<open>One pass of the loop at a MultiPolygon row assigns the splice at that row.\<close>

lemma explode_loop_step:
  "is_MultiPolygon (clipped ! i) \<Longrightarrow>
     explode_loop clipped [i] acc = drop (i + 1) clipped @ map Polygon (geoms (clipped ! i))"
  by (cases "clipped ! i") (simp_all add: splice_rows_def)

lemma explode_loop_none:
  "\<forall>i \<in> set index. \<not> is_MultiPolygon (clipped ! i) \<Longrightarrow> explode_loop clipped index acc = acc"
  by (induction index arbitrary: acc) auto

text \<open>The rectangle has one row, so the buffered clip result has one row or none.\<close>

lemma length_buffered_clip:
  "length (buffered_clip total_bounds clip_row shp_buffer df) \<le> 1"
  by (cases "total_bounds df")
     (simp add: buffered_clip_def gpd_clip_def bounding_rect_def List.map_filter_def Let_def)

lemma buffered_clip_two_squares:
  "buffered_clip coordinate_bounds disjoint_clip keep_shape two_squares =
     [MultiPolygon [ring_polygon (box 0 0 1 1), ring_polygon (box 3 0 4 2)]]"
  by (simp add: buffered_clip_def gpd_clip_def bounding_rect_def coordinate_bounds_two_squares
      Let_def List.map_filter_def disjoint_clip_def buffer_def keep_shape_def)
     (simp add: two_squares_def)

lemma buffered_clip_one_square:
  "buffered_clip coordinate_bounds disjoint_clip keep_shape one_square =
     [Polygon (ring_polygon (box 0 0 1 1))]"
  by (cases "coordinate_bounds one_square")
     (simp add: buffered_clip_def gpd_clip_def bounding_rect_def
      Let_def List.map_filter_def disjoint_clip_def buffer_def keep_shape_def one_square_def)

text \<open>
  Claim C1. For every row \<open>i\<close> of the series \<open>clipped\<close> that is a MultiPolygon, the
  branch of the loop at \<open>i\<close> assigns the rows strictly after \<open>i\<close> followed by the
  polygons of row \<open>i\<close>, one row each, so no row before \<open>i\<close> is in it. That is the final
  output of the loop when no row after \<open>i\<close> is a MultiPolygon. In \<open>dissolve_geopandas\<close>,
  where \<open>clipped\<close> is the buffered clip result and has one row at most, it is the output.
\<close>

theorem dissolve_geopandas_splice:
  assumes "i < length clipped" and "is_MultiPolygon (clipped ! i)"
  shows "explode_loop clipped [i] acc =
           drop (i + 1) clipped @ map Polygon (geoms (clipped ! i))
         \<and> ((\<forall>j. i < j \<and> j < length clipped \<longrightarrow> \<not> is_MultiPolygon (clipped ! j)) \<longrightarrow>
              explode_loop clipped [0..<length clipped] clipped =
                drop (i + 1) clipped @ map Polygon (geoms (clipped ! i)))
         \<and> (clipped = buffered_clip total_bounds clip_row shp_buffer df \<longrightarrow>
              dissolve_geopandas total_bounds clip_row shp_buffer df =
                drop (i + 1) clipped @ map Polygon (geoms (clipped ! i)))"
proof (intro conjI impI)
  show "explode_loop clipped [i] acc =
          drop (i + 1) clipped @ map Polygon (geoms (clipped ! i))"
    using assms(2) by (rule explode_loop_step)
next
  assume "\<forall>j. i < j \<and> j < length clipped \<longrightarrow> \<not> is_MultiPolygon (clipped ! j)"
  with assms have "explode_loop clipped [0..<length clipped] clipped = splice_rows clipped i"
    by (rule explode_loop_last_row)
  with assms(2) show "explode_loop clipped [0..<length clipped] clipped =
      drop (i + 1) clipped @ map Polygon (geoms (clipped ! i))"
    by (simp add: splice_rows_multi)
next
  assume c: "clipped = buffered_clip total_bounds clip_row shp_buffer df"
  have "length clipped \<le> 1" unfolding c by (rule length_buffered_clip)
  with assms(1) have "\<forall>j. i < j \<and> j < length clipped \<longrightarrow> \<not> is_MultiPolygon (clipped ! j)"
    by auto
  with assms have "explode_loop clipped [0..<length clipped] clipped = splice_rows clipped i"
    by (rule explode_loop_last_row)
  with assms(2) c show "dissolve_geopandas total_bounds clip_row shp_buffer df =
      drop (i + 1) clipped @ map Polygon (geoms (clipped ! i))"
    by (simp add: dissolve_geopandas_def Let_def splice_rows_multi)
qed

text \<open>
  In \<open>three_rows\<close> the row before the MultiPolygon is dropped and the row after it comes
  first. Two disjoint squares come back from \<open>dissolve_geopandas\<close> as two rows.
\<close>

lemma explode_loop_three_rows:
  "explode_loop three_rows [0..<length three_rows] three_rows =
     [Polygon (ring_polygon (box 7 0 8 1)),
      Polygon (ring_polygon (box 3 0 4 2)), Polygon (ring_polygon (box 5 0 6 1))]"
  by (simp add: three_rows_def splice_rows_def upt_rec)

theorem dissolve_geopandas_splice_witness:
  "Suc 0 < length three_rows \<and> is_MultiPolygon (three_rows ! Suc 0)
   \<and> explode_loop three_rows [Suc 0] [] =
       [Polygon (ring_polygon (box 7 0 8 1)),
        Polygon (ring_polygon (box 3 0 4 2)), Polygon (ring_polygon (box 5 0 6 1))]
   \<and> explode_loop three_rows [0..<length three_rows] three_rows =
       [Polygon (ring_polygon (box 7 0 8 1)),
        Polygon (ring_polygon (box 3 0 4 2)), Polygon (ring_polygon (box 5 0 6 1))]
   \<and> 0 < length (buffered_clip coordinate_bounds disjoint_clip keep_shape two_squares)
   \<and> is_MultiPolygon (buffered_clip coordinate_bounds disjoint_clip keep_shape two_squares ! 0)
   \<and> dissolve_geopandas coordinate_bounds disjoint_clip keep_shape two_squares =
       [Polygon (ring_polygon (box 0 0 1 1)), Polygon (ring_polygon (box 3 0 4 2))]"
proof -
  have a: "Suc 0 < length three_rows" "is_MultiPolygon (three_rows ! Suc 0)"
    by (simp_all add: three_rows_def)
  have b: "0 < length (buffered_clip coordinate_bounds disjoint_clip keep_shape two_squares)"
    "is_MultiPolygon (buffered_clip coordinate_bounds disjoint_clip keep_shape two_squares ! 0)"
    by (simp_all add: buffered_clip_two_squares)
  have r: "drop (Suc 0 + 1) three_rows @ map Polygon (geoms (three_rows ! Suc 0)) =
       [Polygon (ring_polygon (box 7 0 8 1)),
        Polygon (ring_polygon (box 3 0 4 2)), Polygon (ring_polygon (box 5 0 6 1))]"
    by (simp add: three_rows_def)
  have last: "\<forall>j. Suc 0 < j \<and> j < length three_rows \<longrightarrow> \<not> is_MultiPolygon (three_rows ! j)"
    by (auto simp: three_rows_def less_Suc_eq)
  from dissolve_geopandas_splice [OF a, of "[]" coordinate_bounds disjoint_clip keep_shape two_squares]
    last r
  have one: "explode_loop three_rows [Suc 0] [] =
       [Polygon (ring_polygon (box 7 0 8 1)),
        Polygon (ring_polygon (box 3 0 4 2)), Polygon (ring_polygon (box 5 0 6 1))]"
    and all: "explode_loop three_rows [0..<length three_rows] three_rows =
       [Polygon (ring_polygon (box 7 0 8 1)),
        Polygon (ring_polygon (box 3 0 4 2)), Polygon (ring_polygon (box 5 0 6 1))]"
    by simp_all
  from dissolve_geopandas_splice [OF b, of "[]" coordinate_bounds disjoint_clip keep_shape two_squares]
  have d: "dissolve_geopandas coordinate_bounds disjoint_clip keep_shape two_squares =
       [Polygon (ring_polygon (box 0 0 1 1)), Polygon (ring_polygon (box 3 0 4 2))]"
    by (simp add: buffered_clip_two_squares)
  from a b one all d show ?thesis by simp
qed

text \<open>
  Claim C10. If no row of the buffered clip result is a MultiPolygon, \<open>dissolve_geopandas\<close>
  returns the buffered clip result, row for row, and the loop takes its branch at no
  label.
\<close>

theorem dissolve_geopandas_no_multi:
  assumes "\<forall>g \<in> set (buffered_clip total_bounds clip_row shp_buffer df). \<not> is_MultiPolygon g"
  shows "dissolve_geopandas total_bounds clip_row shp_buffer df =
           buffered_clip total_bounds clip_row shp_buffer df
         \<and> filter (\<lambda>i. is_MultiPolygon (buffered_clip total_bounds clip_row shp_buffer df ! i))
             [0..<length (buffered_clip total_bounds clip_row shp_buffer df)] = []"
proof -
  let ?clipped = "buffered_clip total_bounds clip_row shp_buffer df"
  have none: "\<forall>i \<in> set [0..<length ?clipped]. \<not> is_MultiPolygon (?clipped ! i)"
    using assms by simp
  then have "explode_loop ?clipped [0..<length ?clipped] ?clipped = ?clipped"
    by (rule explode_loop_none)
  moreover have "filter (\<lambda>i. is_MultiPolygon (?clipped ! i)) [0..<length ?clipped] = []"
    using none by (simp add: filter_empty_conv)
  ultimately show ?thesis
    by (simp add: dissolve_geopandas_def Let_def)
qed

theorem dissolve_geopandas_no_multi_witness:
  "list_all (\<lambda>g. \<not> is_MultiPolygon g)
     (buffered_clip coordinate_bounds disjoint_clip keep_shape one_square)
   \<and> dissolve_geopandas coordinate_bounds disjoint_clip keep_shape one_square =
       [Polygon (ring_polygon (box 0 0 1 1))]"
  using dissolve_geopandas_no_multi [of coordinate_bounds disjoint_clip keep_shape one_square]
  by (simp add: buffered_clip_one_square)



section \<open>Properties of the objects\<close>

lemma unchanged_refl: "unchanged s s"
  by (simp add: unchanged_def)

lemma unchanged_trans: "unchanged s s1 \<Longrightarrow> unchanged s1 s2 \<Longrightarrow> unchanged s s2"
  by (auto simp: unchanged_def)

lemma unchanged_geom: "unchanged s s' \<Longrightarrow> a < length (geom_objs s) \<Longrightarrow> geom_objs s' ! a = geom_objs s ! a"
  by (auto simp: unchanged_def prefix_def nth_append)

lemma unchanged_coll: "unchanged s s' \<Longrightarrow> a < length (coll_objs s) \<Longrightarrow> coll_objs s' ! a = coll_objs s ! a"
  by (auto simp: unchanged_def prefix_def nth_append)

lemma explode_loop_obj_frame:
  "explode_loop_obj cc s clipped index c' = (s', r) \<Longrightarrow>
     unchanged s s' \<and> (r = c' \<or> length (coll_objs s) \<le> r)
     \<and> (c' < length (coll_objs s) \<longrightarrow> r < length (coll_objs s'))"
proof (induction index arbitrary: s c')
  case Nil
  then show ?case by (simp add: unchanged_refl)
next
  case (Cons i index)
  show ?case
  proof (cases "is_MultiPolygon (rows (coll_objs s ! clipped) ! i)")
    case False
    with Cons.prems have "explode_loop_obj cc s clipped index c' = (s', r)" by simp
    from Cons.IH [OF this] show ?thesis .
  next
    case True
    define c where "c = coll_objs s ! clipped"
    define s1 where "s1 = s\<lparr>coll_objs := coll_objs s @ [\<lparr>crs = None, rows = explode (rows c ! i)\<rparr>]\<rparr>"
    define s2 where "s2 = s1\<lparr>coll_objs := coll_objs s1 @
        [\<lparr>crs = cc (crs (coll_objs s1 ! clipped)) (crs (coll_objs s1 ! length (coll_objs s))),
          rows = drop (i + 1) (rows (coll_objs s1 ! clipped)) @ rows (coll_objs s1 ! length (coll_objs s))\<rparr>]\<rparr>"
    from True Cons.prems have run: "explode_loop_obj cc s2 clipped index (length (coll_objs s1)) = (s', r)"
      by (simp add: new_coll_def Let_def s1_def s2_def c_def)
    from Cons.IH [OF run] have ih: "unchanged s2 s'"
      "r = length (coll_objs s1) \<or> length (coll_objs s2) \<le> r"
      "length (coll_objs s1) < length (coll_objs s2) \<longrightarrow> r < length (coll_objs s')" by simp_all
    have u: "unchanged s s2"
      by (simp add: unchanged_def s1_def s2_def prefix_def)
    have len: "length (coll_objs s1) = length (coll_objs s) + 1" "length (coll_objs s2) = length (coll_objs s) + 2"
      by (simp_all add: s1_def s2_def)
    from ih len u show ?thesis
      by (auto intro: unchanged_trans)
  qed
qed

lemma explode_loop_obj_rows:
  "clipped < length (coll_objs s) \<Longrightarrow> c' < length (coll_objs s) \<Longrightarrow>
   explode_loop_obj cc s clipped index c' = (s', r) \<Longrightarrow>
     rows (coll_objs s' ! r) =
       explode_loop (rows (coll_objs s ! clipped)) index (rows (coll_objs s ! c'))"
proof (induction index arbitrary: s c')
  case Nil
  then show ?case by simp
next
  case (Cons i index)
  show ?case
  proof (cases "is_MultiPolygon (rows (coll_objs s ! clipped) ! i)")
    case False
    with Cons.prems have "explode_loop_obj cc s clipped index c' = (s', r)" by simp
    from Cons.IH [OF Cons.prems(1,2) this] False show ?thesis by simp
  next
    case True
    define c where "c = coll_objs s ! clipped"
    define s1 where "s1 = s\<lparr>coll_objs := coll_objs s @ [\<lparr>crs = None, rows = explode (rows c ! i)\<rparr>]\<rparr>"
    define s2 where "s2 = s1\<lparr>coll_objs := coll_objs s1 @
        [\<lparr>crs = cc (crs (coll_objs s1 ! clipped)) (crs (coll_objs s1 ! length (coll_objs s))),
          rows = drop (i + 1) (rows (coll_objs s1 ! clipped)) @ rows (coll_objs s1 ! length (coll_objs s))\<rparr>]\<rparr>"
    from True Cons.prems have run: "explode_loop_obj cc s2 clipped index (length (coll_objs s1)) = (s', r)"
      by (simp add: new_coll_def Let_def s1_def s2_def c_def)
    have c2: "coll_objs s2 ! clipped = c"
      using Cons.prems(1) by (simp add: s2_def s1_def c_def nth_append)
    have sp: "rows (coll_objs s2 ! length (coll_objs s1)) = splice_rows (rows c) i"
      using Cons.prems(1) by (simp add: s2_def s1_def c_def nth_append splice_rows_def)
    have lens: "clipped < length (coll_objs s2)" "length (coll_objs s1) < length (coll_objs s2)"
      using Cons.prems(1) by (simp_all add: s2_def s1_def)
    from Cons.IH [OF lens run] c2 sp True show ?thesis
      by (simp add: c_def)
  qed
qed


lemma buffer_obj_frame:
  "buffer_obj sb s poly = (s', r) \<Longrightarrow>
     unchanged s s' \<and> length (geom_objs s) \<le> r \<and> r < length (geom_objs s')
     \<and> geom_objs s' ! r = buffer sb (geom_objs s ! poly)"
  by (auto simp: buffer_obj_def new_geom_def Let_def unchanged_def prefix_def nth_append buffer_def)

lemma close_holes_obj_polygon:
  assumes "poly < length (geom_objs s)" and "geom_objs s ! poly = Polygon p"
  shows "\<exists>s' r. close_holes_obj area s poly area_max = Inr (s', r)
           \<and> unchanged s s' \<and> r < length (geom_objs s')
           \<and> close_holes area (Polygon p) area_max = Inr (geom_objs s' ! r)
           \<and> (if area_max = 0 \<and> interiors p = []
                then r = poly \<and> s' = s
                else length (geom_objs s) \<le> r)"
  using assms
  by (simp add: close_holes_obj_def new_geom_def unchanged_def)

lemma close_holes_obj_multipolygon:
  "is_MultiPolygon (geom_objs s ! poly) \<Longrightarrow>
     close_holes_obj area s poly area_max = Inl AttributeError"
  by (cases "geom_objs s ! poly") (simp_all add: close_holes_obj_def)

lemma fill_geopandas_obj_frame:
  "case fill_geopandas_obj area s df area_max of
     Inl e \<Rightarrow> fill_geopandas area (coll_objs s ! df) area_max = Inl e
   | Inr (s', r) \<Rightarrow>
       unchanged s s' \<and> length (coll_objs s) \<le> r \<and> r < length (coll_objs s')
       \<and> fill_geopandas area (coll_objs s ! df) area_max = Inr (coll_objs s' ! r)"
  by (simp add: fill_geopandas_obj_def fill_geopandas_def new_coll_def unchanged_def
      split: sum.splits)

lemma dissolve_geopandas_obj_frame:
  assumes "df < length (coll_objs s)"
    and run: "dissolve_geopandas_obj tb clip_row sb cc s df = (s', r)"
  shows "unchanged s s' \<and> length (coll_objs s) \<le> r \<and> r < length (coll_objs s')
         \<and> rows (coll_objs s' ! r) = dissolve_geopandas tb clip_row sb (coll_objs s ! df)"
proof -
  define n where "n = length (coll_objs s)"
  define dfv where "dfv = coll_objs s ! df"
  define rect where "rect = bounding_rect tb dfv"
  define clipped0 where "clipped0 = gpd_clip clip_row rect dfv"
  define clipped where
    "clipped = \<lparr>crs = crs clipped0, rows = map (\<lambda>p. buffer sb p) (rows clipped0)\<rparr>"
  define s4 where "s4 = s\<lparr>coll_objs := coll_objs s @ [rect, clipped0, clipped, clipped]\<rparr>"
  have at: "coll_objs s4 ! (Suc (Suc n)) = clipped" "coll_objs s4 ! (Suc (Suc (Suc n))) = clipped"
    by (simp_all add: s4_def n_def nth_append)
  have loop: "explode_loop_obj cc s4 (Suc (Suc n)) [0..<length (rows clipped)] (Suc (Suc (Suc n))) = (s', r)"
    using run assms(1)
    by (simp add: dissolve_geopandas_obj_def new_coll_def Let_def nth_append
        s4_def clipped_def clipped0_def rect_def dfv_def n_def)
  have len4: "length (coll_objs s4) = Suc (Suc (Suc (Suc n)))"
    by (simp add: s4_def n_def)
  have u: "unchanged s s4"
    by (simp add: unchanged_def s4_def)
  from explode_loop_obj_frame [OF loop] len4
  have fr: "unchanged s4 s'" "r = Suc (Suc (Suc n)) \<or> Suc (Suc (Suc (Suc n))) \<le> r" "r < length (coll_objs s')"
    by simp_all
  from explode_loop_obj_rows [OF _ _ loop] len4 at
  have "rows (coll_objs s' ! r) =
          explode_loop (rows clipped) [0..<length (rows clipped)] (rows clipped)"
    by simp
  moreover have "rows clipped = buffered_clip tb clip_row sb dfv"
    by (simp add: clipped_def clipped0_def rect_def buffered_clip_def Let_def)
  ultimately have "rows (coll_objs s' ! r) = dissolve_geopandas tb clip_row sb dfv"
    by (simp add: dissolve_geopandas_def Let_def)
  with fr u show ?thesis
    by (auto simp: n_def dfv_def intro: unchanged_trans)
qed


lemma buffer_obj_store0: "snd (buffer_obj keep_shape store0 (Suc 0)) = 3"
  by (simp add: buffer_obj_def new_geom_def store0_def Let_def)

lemma fill_geopandas_obj_store0:
  "fill_geopandas_obj planar_area store0 0 0 =
     Inr (store0\<lparr>coll_objs := coll_objs store0 @ [two_squares]\<rparr>, 1)"
  by (simp add: fill_geopandas_obj_def new_coll_def store0_def two_squares_def
      collect_interiors_filter ring_polygon_def)

lemma dissolve_geopandas_obj_store0:
  "snd (dissolve_geopandas_obj coordinate_bounds disjoint_clip keep_shape common_crs store0 0) = 6"
  by (simp add: dissolve_geopandas_obj_def new_coll_def Let_def store0_def
      bounding_rect_def coordinate_bounds_two_squares gpd_clip_def List.map_filter_def
      disjoint_clip_def buffer_def keep_shape_def)
     (simp add: two_squares_def)

lemma close_holes_obj_store0: "close_holes_obj planar_area store0 (Suc 0) 0 = Inr (store0, Suc 0)"
  by (simp add: close_holes_obj_def store0_def ring_polygon_def)

text \<open>
  Claim C8, as stated, fails for \<open>close_holes\<close>: with \<open>area_max = 0\<close> and a polygon
  without interior rings, here the object at position 1 of \<open>store0\<close>, the call returns
  that object itself and constructs nothing.
\<close>

theorem close_holes_returns_input:
  "close_holes_obj planar_area store0 (Suc 0) 0 = Inr (store0, Suc 0)"
  by (simp add: close_holes_obj_def store0_def ring_polygon_def)

text \<open>
  Claim C8, amended. \<open>buffer\<close>, \<open>close_holes\<close>, \<open>fill_geopandas\<close> and
  \<open>dissolve_geopandas\<close> leave the objects that exist as they are, their argument among
  them. \<open>buffer\<close>, \<open>fill_geopandas\<close> and \<open>dissolve_geopandas\<close> return an object that
  the call constructed; so does \<open>close_holes\<close>, except for \<open>area_max = 0\<close> and a polygon
  without interior rings, where it returns its argument.
\<close>

theorem operations_leave_input_unchanged:
  assumes "poly < length (geom_objs s)" and "df < length (coll_objs s)"
  shows
    "(case buffer_obj sb s poly of (s', r) \<Rightarrow>
        unchanged s s' \<and> geom_objs s' ! poly = geom_objs s ! poly
        \<and> length (geom_objs s) \<le> r \<and> r < length (geom_objs s'))
     \<and> (\<forall>p. geom_objs s ! poly = Polygon p \<longrightarrow>
          (\<exists>s' r. close_holes_obj area s poly area_max = Inr (s', r)
             \<and> unchanged s s' \<and> geom_objs s' ! poly = Polygon p
             \<and> r < length (geom_objs s')
             \<and> (if area_max = 0 \<and> interiors p = []
                  then r = poly \<and> s' = s
                  else length (geom_objs s) \<le> r)))
     \<and> (case fill_geopandas_obj area s df area_max of
          Inl e \<Rightarrow> fill_geopandas area (coll_objs s ! df) area_max = Inl e
        | Inr (s', r) \<Rightarrow>
            unchanged s s' \<and> coll_objs s' ! df = coll_objs s ! df
            \<and> length (coll_objs s) \<le> r \<and> r < length (coll_objs s'))
     \<and> (case dissolve_geopandas_obj tb clip_row sb cc s df of (s', r) \<Rightarrow>
          unchanged s s' \<and> coll_objs s' ! df = coll_objs s ! df
          \<and> length (coll_objs s) \<le> r \<and> r < length (coll_objs s'))"
proof (intro conjI allI impI)
  obtain s' r where b: "buffer_obj sb s poly = (s', r)"
    by (cases "buffer_obj sb s poly")
  from buffer_obj_frame [OF b] assms(1) b
  show "case buffer_obj sb s poly of (s', r) \<Rightarrow>
        unchanged s s' \<and> geom_objs s' ! poly = geom_objs s ! poly
        \<and> length (geom_objs s) \<le> r \<and> r < length (geom_objs s')"
    by (simp add: unchanged_geom)
next
  fix p
  assume p: "geom_objs s ! poly = Polygon p"
  from close_holes_obj_polygon [OF assms(1) p, of area area_max]
  obtain s' r where c: "close_holes_obj area s poly area_max = Inr (s', r)"
    "unchanged s s'" "r < length (geom_objs s')"
    "if area_max = 0 \<and> interiors p = [] then r = poly \<and> s' = s else length (geom_objs s) \<le> r"
    by blast
  from c(2) assms(1) p have "geom_objs s' ! poly = Polygon p"
    by (simp add: unchanged_geom)
  with c show "\<exists>s' r. close_holes_obj area s poly area_max = Inr (s', r)
             \<and> unchanged s s' \<and> geom_objs s' ! poly = Polygon p
             \<and> r < length (geom_objs s')
             \<and> (if area_max = 0 \<and> interiors p = []
                  then r = poly \<and> s' = s
                  else length (geom_objs s) \<le> r)"
    by simp
next
  from fill_geopandas_obj_frame [of area s df area_max] assms(2)
  show "case fill_geopandas_obj area s df area_max of
          Inl e \<Rightarrow> fill_geopandas area (coll_objs s ! df) area_max = Inl e
        | Inr (s', r) \<Rightarrow>
            unchanged s s' \<and> coll_objs s' ! df = coll_objs s ! df
            \<and> length (coll_objs s) \<le> r \<and> r < length (coll_objs s')"
    by (auto split: sum.splits simp: unchanged_coll)
next
  obtain s' r where d: "dissolve_geopandas_obj tb clip_row sb cc s df = (s', r)"
    by (cases "dissolve_geopandas_obj tb clip_row sb cc s df")
  from dissolve_geopandas_obj_frame [OF assms(2) d] assms(2) d
  show "case dissolve_geopandas_obj tb clip_row sb cc s df of (s', r) \<Rightarrow>
          unchanged s s' \<and> coll_objs s' ! df = coll_objs s ! df
          \<and> length (coll_objs s) \<le> r \<and> r < length (coll_objs s')"
    by (simp add: unchanged_coll)
qed

theorem operations_leave_input_unchanged_witness:
  "Suc 0 < length (geom_objs store0) \<and> 0 < length (coll_objs store0)
   \<and> snd (buffer_obj keep_shape store0 (Suc 0)) = 3
   \<and> close_holes_obj planar_area store0 (Suc 0) 0 = Inr (store0, Suc 0)
   \<and> fill_geopandas_obj planar_area store0 0 0 =
       Inr (store0\<lparr>coll_objs := coll_objs store0 @ [two_squares]\<rparr>, 1)
   \<and> snd (dissolve_geopandas_obj coordinate_bounds disjoint_clip keep_shape common_crs store0 0) = 6"
proof -
  have a: "Suc 0 < length (geom_objs store0)" and b: "0 < length (coll_objs store0)"
    by (simp_all add: store0_def)
  from operations_leave_input_unchanged
    [OF a b, of keep_shape planar_area 0 coordinate_bounds disjoint_clip common_crs] a b
  show ?thesis
    by (simp add: buffer_obj_store0 close_holes_obj_store0 fill_geopandas_obj_store0
        dissolve_geopandas_obj_store0)
qed


end
